theory Spec2Isabelle
  imports Complex_Main "HOL-Library.Sublist"
begin

section \<open>Values of the host language\<close>

text \<open>
  The values that reach the model registry and the \<open>model\<close> field of a session.
  \<open>Undefined\<close> is a missing property or an absent body field, \<open>Text\<close> a string, and
  \<open>ProtoMember k\<close> the member \<open>k\<close> that every object literal inherits from
  \<open>Object.prototype\<close> (a function, or the prototype object itself for \<open>__proto__\<close>).
\<close>

datatype jsval = Undefined | Text string | ProtoMember string

text \<open>Truthiness, as \<open>if (v)\<close> and \<open>!v\<close> test it: a string is truthy unless it is empty,
  functions and objects are truthy.\<close>

fun truthy :: "jsval \<Rightarrow> bool" where
  "truthy Undefined = False"
| "truthy (Text s) = (s \<noteq> [])"
| "truthy (ProtoMember k) = True"

text \<open>An optional text field of a JSON request body: \<open>None\<close> when the field is absent.\<close>

fun field :: "string option \<Rightarrow> jsval" where
  "field None = Undefined"
| "field (Some s) = Text s"

section \<open>Model registry\<close>

definition MODELS :: "(string \<times> string) list" where
  "MODELS =
    [(''llama3'', ''meta-llama/Llama-3.1-8B-Instruct''),
     (''mistral'', ''mistralai/Mistral-7B-Instruct-v0.3''),
     (''phi3'', ''microsoft/Phi-3-mini-4k-instruct''),
     (''qwen'', ''Qwen/Qwen2.5-7B-Instruct''),
     (''gemma'', ''google/gemma-2-9b-it'')]"

definition DEFAULT_MODEL :: string where
  "DEFAULT_MODEL = ''llama3''"

text \<open>The property names of \<open>Object.prototype\<close>, which \<open>MODELS\<close>, an object literal,
  inherits.\<close>

definition Object_prototype_keys :: "string list" where
  "Object_prototype_keys =
    [''constructor'', ''__defineGetter__'', ''__defineSetter__'', ''hasOwnProperty'',
     ''__lookupGetter__'', ''__lookupSetter__'', ''isPrototypeOf'',
     ''propertyIsEnumerable'', ''toString'', ''valueOf'', ''__proto__'',
     ''toLocaleString'']"

text \<open>\<open>MODELS[k]\<close>: the own property when there is one, otherwise the inherited member,
  otherwise \<open>undefined\<close>.\<close>

definition MODELS_get :: "string \<Rightarrow> jsval" where
  "MODELS_get k =
    (case map_of MODELS k of
       Some v \<Rightarrow> Text v
     | None \<Rightarrow> if k \<in> set Object_prototype_keys then ProtoMember k else Undefined)"

definition resolveModel :: "string option \<Rightarrow> jsval" where
  "resolveModel model =
    (case model of
       None \<Rightarrow> MODELS_get DEFAULT_MODEL
     | Some m \<Rightarrow>
         if \<not> truthy (Text m) then MODELS_get DEFAULT_MODEL
         else if truthy (MODELS_get m) then MODELS_get m
         else Text m)"

section \<open>Sessions and the session store\<close>

datatype role = System | User | Assistant

record message =
  role :: role
  content :: string

record conversation =
  messages :: "message list"
  systemPrompt :: string
  model :: jsval
  createdAt :: string
  updatedAt :: "string option"

type_synonym store = "string \<rightharpoonup> conversation"

text \<open>\<open>xs.slice(k)\<close>: a negative start counts from the end and is clamped at the
  beginning, a positive one is clamped at the end.\<close>

definition slice_from :: "int \<Rightarrow> 'a list \<Rightarrow> 'a list" where
  "slice_from k xs =
    (let n = int (length xs);
         start = (if k < 0 then max (n + k) 0 else min k n)
     in drop (nat start) xs)"

text \<open>The truncation step of the turn handler:
  \<open>if (messages.length > 20) messages = messages.slice(-20)\<close>.\<close>

definition truncateHistory :: "message list \<Rightarrow> message list" where
  "truncateHistory ms = (if length ms > 20 then slice_from (- 20) ms else ms)"

text \<open>
  \<open>getConversation\<close>. The fresh identifier and the clock are inputs: \<open>uuid\<close> is what
  \<open>randomUUID()\<close> returns and \<open>now\<close> what \<open>new Date().toISOString()\<close> returns.
  The result is the snapshot \<open>{id, ...convo}\<close> and the store.
\<close>

definition getConversation ::
  "string \<Rightarrow> string \<Rightarrow> store \<Rightarrow> string option \<Rightarrow> (string \<times> conversation) \<times> store" where
  "getConversation uuid now conversations conversationId =
    (case (if truthy (field conversationId) then conversationId else None) of
       Some cid \<Rightarrow>
         (case conversations cid of
            Some convo \<Rightarrow> ((cid, convo), conversations)
          | None \<Rightarrow>
              (let convo = \<lparr> messages = [],
                             systemPrompt = ''You are a helpful, friendly AI assistant.'',
                             model = MODELS_get DEFAULT_MODEL,
                             createdAt = now, updatedAt = None \<rparr>
               in ((cid, convo), conversations(cid \<mapsto> convo))))
     | None \<Rightarrow>
         (let convo = \<lparr> messages = [],
                        systemPrompt = ''You are a helpful, friendly AI assistant.'',
                        model = MODELS_get DEFAULT_MODEL,
                        createdAt = now, updatedAt = None \<rparr>
          in ((uuid, convo), conversations(uuid \<mapsto> convo))))"

section \<open>The completion gateway and the HTTP surface\<close>

record completion_request =
  cc_model :: jsval
  cc_messages :: "message list"
  cc_temperature :: real
  cc_max_tokens :: int

text \<open>What \<open>await client.chatCompletion(...)\<close> gives: it throws with a message, or it
  returns a response, of which the handler reads \<open>choices[0]?.message?.content\<close>
  (absent: \<open>None\<close>) and \<open>usage\<close>. A response without a \<open>choices\<close> array makes the
  handler throw at once, before any further change of the store: it is a \<open>GatewayError\<close>
  too.\<close>

datatype completion = GatewayError string | Completion "string option" "nat option"

record request_body =
  req_message :: "string option"
  req_conversationId :: "string option"
  req_model :: "string option"
  req_systemPrompt :: "string option"
  req_temperature :: "real option"
  req_max_tokens :: "int option"

record environment =
  chatCompletion :: "completion_request \<Rightarrow> completion"
  randomUUID :: string
  createdNow :: string
  updatedNow :: string

datatype response =
    BadRequest string
  | NotFound string
  | ServerError string string
  | TurnOk string string jsval nat "nat option"
  | HistoryOk string string jsval nat "message list" string "string option"
  | DeletedOk string

text \<open>
  \<open>app.post('/conversation')\<close>. The result is the HTTP response, the store afterwards
  and the requests made to the gateway, in order.
\<close>

definition postConversation ::
  "environment \<Rightarrow> store \<Rightarrow> request_body \<Rightarrow> response \<times> store \<times> completion_request list" where
  "postConversation env conversations body =
    (case (if truthy (field (req_message body)) then req_message body else None) of
       None \<Rightarrow> (BadRequest ''message is required'', conversations, [])
     | Some msg \<Rightarrow>
        (let temperature = (case req_temperature body of None \<Rightarrow> 7 / 10 | Some t \<Rightarrow> t);
             max_tokens = (case req_max_tokens body of None \<Rightarrow> 1024 | Some n \<Rightarrow> n);
             ((cid, convo), st1) =
               getConversation (randomUUID env) (createdNow env) conversations
                 (req_conversationId body)
         in case st1 cid of
              None \<Rightarrow> (ServerError ''Failed to generate response'' ''TypeError'', st1, [])
            | Some storedConvo \<Rightarrow>
               (let c1 = (case (if truthy (field (req_systemPrompt body))
                                then req_systemPrompt body else None) of
                            Some p \<Rightarrow> storedConvo\<lparr> systemPrompt := p \<rparr>
                          | None \<Rightarrow> storedConvo);
                    c2 = (if truthy (field (req_model body))
                          then c1\<lparr> model := resolveModel (req_model body) \<rparr> else c1);
                    c3 = c2\<lparr> messages := messages c2 @ [\<lparr> role = User, content = msg \<rparr>] \<rparr>;
                    outbound = \<lparr> role = System, content = systemPrompt c3 \<rparr> # messages c3;
                    c4 = c3\<lparr> messages := truncateHistory (messages c3) \<rparr>;
                    request = \<lparr> cc_model = model c4, cc_messages = outbound,
                                cc_temperature = temperature, cc_max_tokens = max_tokens \<rparr>
                in case chatCompletion env request of
                     GatewayError e \<Rightarrow>
                       (ServerError ''Failed to generate response'' e, st1(cid \<mapsto> c4), [request])
                   | Completion c usage \<Rightarrow>
                       (let reply = (case c of Some r \<Rightarrow> r | None \<Rightarrow> []);
                            c5 = c4\<lparr> messages := messages c4 @ [\<lparr> role = Assistant, content = reply \<rparr>],
                                     updatedAt := Some (updatedNow env) \<rparr>
                        in (TurnOk cid reply (model c5) (length (messages c5)) usage,
                            st1(cid \<mapsto> c5), [request])))))"

text \<open>\<open>app.get('/conversation/:id')\<close>.\<close>

definition getConversationRoute :: "store \<Rightarrow> string \<Rightarrow> response" where
  "getConversationRoute conversations cid =
    (case conversations cid of
       None \<Rightarrow> NotFound ''Conversation not found''
     | Some convo \<Rightarrow>
         HistoryOk cid (systemPrompt convo) (model convo) (length (messages convo))
           (messages convo) (createdAt convo) (updatedAt convo))"

text \<open>\<open>app.delete('/conversation/:id')\<close>.\<close>

definition deleteConversationRoute :: "store \<Rightarrow> string \<Rightarrow> response \<times> store" where
  "deleteConversationRoute conversations cid =
    (if conversations cid = None then (NotFound ''Conversation not found'', conversations)
     else (DeletedOk ''Conversation deleted'', conversations(cid := None)))"

section \<open>Notions used to state the properties\<close>

text \<open>The two override statements of the turn handler, on their own:
  \<open>if (systemPrompt) storedConvo.systemPrompt = systemPrompt\<close> and
  \<open>if (model) storedConvo.model = resolveModel(model)\<close>.\<close>

definition withOverrides :: "request_body \<Rightarrow> conversation \<Rightarrow> conversation" where
  "withOverrides body convo =
    (let c1 = (case (if truthy (field (req_systemPrompt body))
                     then req_systemPrompt body else None) of
                 Some p \<Rightarrow> convo\<lparr> systemPrompt := p \<rparr>
               | None \<Rightarrow> convo)
     in if truthy (field (req_model body))
        then c1\<lparr> model := resolveModel (req_model body) \<rparr> else c1)"

definition userMessage :: "string \<Rightarrow> message" where
  "userMessage msg = \<lparr> role = User, content = msg \<rparr>"

definition assistantMessage :: "string \<Rightarrow> message" where
  "assistantMessage r = \<lparr> role = Assistant, content = r \<rparr>"

text \<open>The argument of the one \<open>client.chatCompletion\<close> call of a turn on the session
  \<open>convo\<close> with the user message \<open>msg\<close>.\<close>

definition turnRequest :: "request_body \<Rightarrow> conversation \<Rightarrow> string \<Rightarrow> completion_request" where
  "turnRequest body convo msg =
     \<lparr> cc_model = model (withOverrides body convo),
       cc_messages = \<lparr> role = System, content = systemPrompt (withOverrides body convo) \<rparr>
                       # (messages convo @ [userMessage msg]),
       cc_temperature = (case req_temperature body of None \<Rightarrow> 7 / 10 | Some t \<Rightarrow> t),
       cc_max_tokens = (case req_max_tokens body of None \<Rightarrow> 1024 | Some n \<Rightarrow> n) \<rparr>"

text \<open>The transcript stored under an identifier; empty when there is no such session.\<close>

definition stored_messages :: "store \<Rightarrow> string \<Rightarrow> message list" where
  "stored_messages st cid = (case st cid of None \<Rightarrow> [] | Some c \<Rightarrow> messages c)"

text \<open>A turn is successful when the handler answers with the reply.\<close>

fun turnOk :: "response \<Rightarrow> bool" where
  "turnOk (TurnOk cid reply m n usage) = True"
| "turnOk _ = False"

text \<open>Requests to \<open>POST /conversation\<close> handled one after the other, each with its own
  environment (gateway behaviour, clock); the responses and the store at the end.\<close>

fun run_turns :: "store \<Rightarrow> (environment \<times> request_body) list \<Rightarrow> response list \<times> store" where
  "run_turns st [] = ([], st)"
| "run_turns st ((env, body) # ts) =
     (case postConversation env st body of
        (resp, st', calls) \<Rightarrow>
          (case run_turns st' ts of (rs, st'') \<Rightarrow> (resp # rs, st'')))"

text \<open>Sequential successful turns, all on the session \<open>cid\<close>.\<close>

definition turns_on :: "string \<Rightarrow> store \<Rightarrow> (environment \<times> request_body) list \<Rightarrow> bool" where
  "turns_on cid st ts \<longleftrightarrow>
     cid \<noteq> [] \<and> list_all (\<lambda>t. req_conversationId (snd t) = Some cid) ts
     \<and> list_all turnOk (fst (run_turns st ts))"

text \<open>An alias is a key of the registry. A fully-qualified identifier is a text that is
  not an alias: the registry assumes of every such text that it is a full model id.\<close>

definition is_alias :: "jsval \<Rightarrow> bool" where
  "is_alias v = (case v of Text s \<Rightarrow> s \<in> set (map fst MODELS) | _ \<Rightarrow> False)"

definition fully_qualified :: "jsval \<Rightarrow> bool" where
  "fully_qualified v =
     (case v of Text s \<Rightarrow> s \<noteq> [] \<and> s \<notin> set (map fst MODELS) | _ \<Rightarrow> False)"

subsection \<open>The turn as the specification words it\<close>

text \<open>
  The specification of the session store describes a turn in numbered steps: append the
  user message (4), assemble the outbound list (5), call the gateway (6), append the reply
  (7), truncate the transcript to its last 20 entries (8); when the gateway fails, nothing
  from step 6 onward is committed. The following definitions follow these words, to be
  compared with the handler.
\<close>

definition spec_truncate :: "message list \<Rightarrow> message list" where
  "spec_truncate ms = drop (length ms - 20) ms"

definition spec_turn_success :: "message list \<Rightarrow> string \<Rightarrow> string \<Rightarrow> message list" where
  "spec_turn_success transcript msg reply =
     spec_truncate ((transcript @ [userMessage msg]) @ [assistantMessage reply])"

definition spec_turn_failure :: "message list \<Rightarrow> string \<Rightarrow> message list" where
  "spec_turn_failure transcript msg = transcript @ [userMessage msg]"

subsection \<open>A concrete conversation\<close>

text \<open>A gateway that answers every request with \<open>re:\<close> and the last message, one that
  always fails, and turns on the session \<open>s1\<close> whose \<open>k\<close>-th user message is \<open>k + 1\<close>
  letters long.\<close>

definition echo :: "completion_request \<Rightarrow> completion" where
  "echo request = Completion (Some (''re:'' @ content (last (cc_messages request)))) None"

definition failing :: "completion_request \<Rightarrow> completion" where
  "failing request = GatewayError ''timeout''"

definition scenario_env :: "(completion_request \<Rightarrow> completion) \<Rightarrow> environment" where
  "scenario_env gw = \<lparr> chatCompletion = gw, randomUUID = ''generated-id'',
                        createdNow = ''t0'', updatedNow = ''t1'' \<rparr>"

definition scenario_body :: "nat \<Rightarrow> request_body" where
  "scenario_body k = \<lparr> req_message = Some (replicate (Suc k) CHR ''x''),
                        req_conversationId = Some ''s1'', req_model = None,
                        req_systemPrompt = None, req_temperature = None,
                        req_max_tokens = None \<rparr>"

definition scenario :: "nat \<Rightarrow> (environment \<times> request_body) list" where
  "scenario n = map (\<lambda>k. (scenario_env echo, scenario_body k)) [0 ..< n]"

text \<open>The session that \<open>getConversation\<close> creates at time \<open>now\<close>.\<close>

definition new_session :: "string \<Rightarrow> conversation" where
  "new_session now = \<lparr> messages = [],
                       systemPrompt = ''You are a helpful, friendly AI assistant.'',
                       model = MODELS_get DEFAULT_MODEL, createdAt = now, updatedAt = None \<rparr>"

text \<open>The same conversation when the first request names no session: the server
  generates the identifier, and the later requests carry it.\<close>

definition scenario_generated :: "nat \<Rightarrow> (environment \<times> request_body) list" where
  "scenario_generated n =
     (scenario_env echo, scenario_body 0\<lparr> req_conversationId := None \<rparr>)
     # map (\<lambda>k. (scenario_env echo,
                   scenario_body k\<lparr> req_conversationId := Some ''generated-id'' \<rparr>))
         [1 ..< n]"

definition store_after_ten :: store where
  "store_after_ten = snd (run_turns Map.empty (scenario 10))"

section \<open>Truncation keeps the most recent entries\<close>

lemma slice_from_neg:
  "0 < k \<Longrightarrow> slice_from (- int k) xs = drop (length xs - k) xs"
  by (auto simp: slice_from_def Let_def max_def nat_diff_distrib' intro: arg_cong2 [where f = drop])

lemma truncateHistory_eq: "truncateHistory ms = drop (length ms - 20) ms"
  using slice_from_neg [of 20 ms] by (simp add: truncateHistory_def)

text \<open>
  Claim C7. When the transcript has more than 20 entries, the truncation step keeps
  exactly the last 20 of them: the result is the suffix of the transcript of length 20,
  so the oldest entries go first and the survivors keep their order.
\<close>

theorem truncateHistory_most_recent:
  "20 < length ms \<Longrightarrow>
     truncateHistory ms = drop (length ms - 20) ms
     \<and> length (truncateHistory ms) = 20
     \<and> suffix (truncateHistory ms) ms
     \<and> (\<forall>i < 20. truncateHistory ms ! i = ms ! (length ms - 20 + i))"
  by (simp add: truncateHistory_eq suffix_drop)

theorem truncateHistory_most_recent_witness:
  "20 < length (map (\<lambda>n. \<lparr> role = User, content = replicate n CHR ''a'' \<rparr>) [0 ..< 22])
   \<and> truncateHistory (map (\<lambda>n. \<lparr> role = User, content = replicate n CHR ''a'' \<rparr>) [0 ..< 22])
       = drop 2 (map (\<lambda>n. \<lparr> role = User, content = replicate n CHR ''a'' \<rparr>) [0 ..< 22])"
  using truncateHistory_most_recent
    [of "map (\<lambda>n. \<lparr> role = User, content = replicate n CHR ''a'' \<rparr>) [0 ..< 22]"]
  by simp

section \<open>One turn of a conversation\<close>

lemma getConversation_stored:
  "getConversation uuid now st cido = ((cid, convo), st1) \<Longrightarrow> st1 cid = Some convo"
  by (auto simp: getConversation_def Let_def split: option.splits if_splits)

lemma getConversation_Some:
  assumes "cid \<noteq> []"
  shows "getConversation uuid now st (Some cid) =
    (case st cid of
       Some convo \<Rightarrow> ((cid, convo), st)
     | None \<Rightarrow>
         ((cid, \<lparr> messages = [], systemPrompt = ''You are a helpful, friendly AI assistant.'',
                  model = MODELS_get DEFAULT_MODEL, createdAt = now, updatedAt = None \<rparr>),
          st(cid \<mapsto> \<lparr> messages = [],
                       systemPrompt = ''You are a helpful, friendly AI assistant.'',
                       model = MODELS_get DEFAULT_MODEL, createdAt = now,
                       updatedAt = None \<rparr>)))"
  using assms by (simp add: getConversation_def Let_def split: option.split)

lemma getConversation_Some_messages:
  assumes "cid \<noteq> []"
    and "getConversation uuid now st (Some cid) = ((cid', convo), st1)"
  shows "cid' = cid \<and> messages convo = stored_messages st cid"
  using assms(2) unfolding getConversation_Some [OF assms(1)] stored_messages_def
  by (auto split: option.splits)

lemma withOverrides_messages: "messages (withOverrides body convo) = messages convo"
  by (simp add: withOverrides_def Let_def split: option.split)

lemma withOverrides_systemPrompt:
  "systemPrompt (withOverrides body convo) =
     (case req_systemPrompt body of
        None \<Rightarrow> systemPrompt convo
      | Some p \<Rightarrow> if p = [] then systemPrompt convo else p)"
  by (simp add: withOverrides_def Let_def split: option.split)

lemma withOverrides_model:
  "model (withOverrides body convo) =
     (case req_model body of
        None \<Rightarrow> model convo
      | Some m \<Rightarrow> if m = [] then model convo else resolveModel (Some m))"
  by (simp add: withOverrides_def Let_def split: option.split)

lemma withOverrides_updatedAt: "updatedAt (withOverrides body convo) = updatedAt convo"
  by (simp add: withOverrides_def Let_def split: option.split)

text \<open>The handler on a request that passes validation, in terms of the session that
  \<open>getConversation\<close> resolves and of what the gateway answers.\<close>

lemma postConversation_turn:
  assumes m: "req_message body = Some msg" "msg \<noteq> []"
    and g: "getConversation (randomUUID env) (createdNow env) st (req_conversationId body)
              = ((cid, convo), st1)"
  shows "postConversation env st body =
    (case chatCompletion env (turnRequest body convo msg) of
       GatewayError e \<Rightarrow>
         (ServerError ''Failed to generate response'' e,
          st1(cid \<mapsto> (withOverrides body convo)
                 \<lparr> messages := truncateHistory (messages convo @ [userMessage msg]) \<rparr>),
          [turnRequest body convo msg])
     | Completion c usage \<Rightarrow>
         (TurnOk cid (case c of Some r \<Rightarrow> r | None \<Rightarrow> []) (model (withOverrides body convo))
            (Suc (length (truncateHistory (messages convo @ [userMessage msg])))) usage,
          st1(cid \<mapsto> (withOverrides body convo)
                 \<lparr> messages := truncateHistory (messages convo @ [userMessage msg])
                      @ [assistantMessage (case c of Some r \<Rightarrow> r | None \<Rightarrow> [])],
                   updatedAt := Some (updatedNow env) \<rparr>),
          [turnRequest body convo msg]))"
proof -
  have s: "st1 cid = Some convo" by (rule getConversation_stored [OF g])
  have t: "(if truthy (field (req_message body)) then req_message body else None) = Some msg"
    using m by simp
  show ?thesis
    unfolding postConversation_def t option.case Let_def g prod.case s
    unfolding withOverrides_def turnRequest_def userMessage_def assistantMessage_def Let_def
    by (cases "req_systemPrompt body"; cases "chatCompletion env (turnRequest body convo msg)")
       (simp_all split: completion.split)
qed

lemma postConversation_invalid:
  "\<not> truthy (field (req_message body)) \<Longrightarrow>
     postConversation env st body = (BadRequest ''message is required'', st, [])"
  by (simp add: postConversation_def)

lemma turn_ok_stored:
  assumes ok: "postConversation env st body = (TurnOk cid' reply m n usage, st', calls)"
    and c: "req_conversationId body = Some cid" "cid \<noteq> []"
  shows "\<exists>msg. req_message body = Some msg \<and> msg \<noteq> [] \<and> cid' = cid \<and>
     stored_messages st' cid =
       truncateHistory (stored_messages st cid @ [userMessage msg]) @ [assistantMessage reply]"
proof -
  obtain msg where m: "req_message body = Some msg" "msg \<noteq> []"
    using ok by (cases "req_message body"; cases "the (req_message body) = []")
      (auto simp: postConversation_def)
  obtain i convo st1 where g:
    "getConversation (randomUUID env) (createdNow env) st (req_conversationId body)
       = ((i, convo), st1)"
    by (metis prod.exhaust)
  have i: "i = cid" "messages convo = stored_messages st cid"
    using getConversation_Some_messages [OF c(2)] g c(1) by auto
  show ?thesis
    using ok m i unfolding postConversation_turn [OF m g]
    by (auto simp: stored_messages_def split: completion.splits)
qed

section \<open>Sequential turns on one session\<close>

lemma run_turns_append:
  "run_turns st (xs @ ys) =
     (case run_turns st xs of (rs, st') \<Rightarrow>
        (case run_turns st' ys of (rs', st'') \<Rightarrow> (rs @ rs', st'')))"
  by (induction xs arbitrary: st) (auto split: prod.splits)

lemma turns_on_append:
  "turns_on cid st (xs @ ys) \<longleftrightarrow>
     turns_on cid st xs \<and> turns_on cid (snd (run_turns st xs)) ys"
  by (auto simp: turns_on_def run_turns_append split: prod.splits)

lemma turns_on_Cons:
  assumes "turns_on cid st ((env, body) # ts)"
  obtains reply m n usage st' calls where
    "postConversation env st body = (TurnOk cid reply m n usage, st', calls)"
    "run_turns st ((env, body) # ts)
       = (TurnOk cid reply m n usage # fst (run_turns st' ts), snd (run_turns st' ts))"
    "turns_on cid st' ts"
    "\<exists>msg. req_message body = Some msg \<and> msg \<noteq> [] \<and>
       stored_messages st' cid =
         truncateHistory (stored_messages st cid @ [userMessage msg]) @ [assistantMessage reply]"
proof -
  obtain resp st' calls where p: "postConversation env st body = (resp, st', calls)"
    by (metis prod.exhaust)
  have ok: "turnOk resp" "list_all turnOk (fst (run_turns st' ts))"
    using assms p by (auto simp: turns_on_def split: prod.splits)
  then obtain i reply m n usage where r: "resp = TurnOk i reply m n usage"
    by (cases resp) auto
  have c: "req_conversationId body = Some cid" "cid \<noteq> []"
    using assms by (auto simp: turns_on_def)
  from turn_ok_stored [OF p [unfolded r] c]
  have i: "i = cid" and s: "\<exists>msg. req_message body = Some msg \<and> msg \<noteq> [] \<and>
       stored_messages st' cid =
         truncateHistory (stored_messages st cid @ [userMessage msg]) @ [assistantMessage reply]"
    by auto
  show thesis
  proof (rule that [of reply m n usage st' calls])
    show "postConversation env st body = (TurnOk cid reply m n usage, st', calls)"
      using p r i by simp
    show "run_turns st ((env, body) # ts)
            = (TurnOk cid reply m n usage # fst (run_turns st' ts), snd (run_turns st' ts))"
      using p r i by (simp split: prod.splits)
    show "turns_on cid st' ts" using assms ok by (auto simp: turns_on_def)
    show "\<exists>msg. req_message body = Some msg \<and> msg \<noteq> [] \<and>
       stored_messages st' cid =
         truncateHistory (stored_messages st cid @ [userMessage msg]) @ [assistantMessage reply]"
      by (rule s)
  qed
qed

lemma length_truncateHistory: "length (truncateHistory ms) = min (length ms) 20"
  by (simp add: truncateHistory_eq)

text \<open>The length of the stored transcript follows \<open>0, 2, 4, \<dots>, 20, 21, 21, \<dots>\<close>.\<close>

lemma run_turns_length:
  assumes "turns_on cid st ts"
    and "length (stored_messages st cid) = min (2 * k) 21"
  shows "length (stored_messages (snd (run_turns st ts)) cid) = min (2 * (k + length ts)) 21"
  using assms
proof (induction ts arbitrary: st k)
  case Nil
  then show ?case by simp
next
  case (Cons t ts)
  obtain env body where t: "t = (env, body)" by (cases t)
  from Cons.prems(1) [unfolded t]
  obtain reply m n usage st' calls where
    r: "run_turns st ((env, body) # ts)
          = (TurnOk cid reply m n usage # fst (run_turns st' ts), snd (run_turns st' ts))"
    and on: "turns_on cid st' ts"
    and s: "\<exists>msg. req_message body = Some msg \<and> msg \<noteq> [] \<and>
       stored_messages st' cid =
         truncateHistory (stored_messages st cid @ [userMessage msg]) @ [assistantMessage reply]"
    by (rule turns_on_Cons)
  have "length (stored_messages st' cid) = min (2 * Suc k) 21"
    using s Cons.prems(2) by (auto simp: length_truncateHistory)
  from Cons.IH [OF on this] show ?case
    unfolding t r by simp
qed

lemma run_turns_snoc:
  assumes "turns_on cid st (ts @ [t])"
  shows "\<exists>msg reply.
     stored_messages (snd (run_turns st (ts @ [t]))) cid =
       truncateHistory (stored_messages (snd (run_turns st ts)) cid @ [userMessage msg])
         @ [assistantMessage reply]"
proof -
  obtain env body where t: "t = (env, body)" by (cases t)
  have on: "turns_on cid (snd (run_turns st ts)) [(env, body)]"
    using assms by (simp add: turns_on_append t)
  then obtain reply m n usage st' calls where
    r: "run_turns (snd (run_turns st ts)) [(env, body)]
          = (TurnOk cid reply m n usage # fst (run_turns st' []), snd (run_turns st' []))"
    and s: "\<exists>msg. req_message body = Some msg \<and> msg \<noteq> [] \<and>
       stored_messages st' cid =
         truncateHistory (stored_messages (snd (run_turns st ts)) cid @ [userMessage msg])
           @ [assistantMessage reply]"
    by (rule turns_on_Cons)
  have "snd (run_turns st (ts @ [t])) = snd (run_turns (snd (run_turns st ts)) [t])"
    by (simp add: run_turns_append split: prod.splits)
  then have "snd (run_turns st (ts @ [t])) = st'"
    using r by (simp add: t)
  then show ?thesis using s by auto
qed

text \<open>During the first ten turns nothing is dropped: the transcript only grows.\<close>

lemma run_turns_untruncated:
  assumes "turns_on cid st ts" and "stored_messages st cid = []" and "length ts \<le> 10"
  shows "prefix (stored_messages (snd (run_turns st (take j ts))) cid)
           (stored_messages (snd (run_turns st ts)) cid)"
  using assms
proof (induction ts arbitrary: j rule: rev_induct)
  case Nil
  then show ?case by simp
next
  case (snoc t ts)
  have on: "turns_on cid st ts" using snoc.prems(1) by (simp add: turns_on_append)
  have len: "length (stored_messages (snd (run_turns st ts)) cid) = min (2 * (0 + length ts)) 21"
    by (rule run_turns_length [OF on]) (simp add: snoc.prems(2))
  obtain msg reply where
    "stored_messages (snd (run_turns st (ts @ [t]))) cid =
       truncateHistory (stored_messages (snd (run_turns st ts)) cid @ [userMessage msg])
         @ [assistantMessage reply]"
    using run_turns_snoc [OF snoc.prems(1)] by blast
  then have ext: "stored_messages (snd (run_turns st (ts @ [t]))) cid =
       stored_messages (snd (run_turns st ts)) cid @ [userMessage msg, assistantMessage reply]"
    using len snoc.prems(3) by (simp add: truncateHistory_def)
  show ?case
  proof (cases "j \<le> length ts")
    case True
    have "prefix (stored_messages (snd (run_turns st (take j ts))) cid)
            (stored_messages (snd (run_turns st ts)) cid)"
      using snoc.IH [OF on snoc.prems(2)] snoc.prems(3) by simp
    moreover have "prefix (stored_messages (snd (run_turns st ts)) cid)
            (stored_messages (snd (run_turns st (ts @ [t]))) cid)"
      by (simp add: ext)
    ultimately show ?thesis using True by simp
  next
    case False
    then show ?thesis by simp
  qed
qed

text \<open>The eleventh turn drops one entry: the transcript then starts with what was stored
  second.\<close>

lemma run_turns_eleventh:
  assumes "turns_on cid st ts" and "stored_messages st cid = []" and "length ts = 11"
  shows "stored_messages (snd (run_turns st ts)) cid ! 0
           = stored_messages (snd (run_turns st (take 1 ts))) cid ! 1"
proof -
  have "length (drop 10 ts) = 1" using assms(3) by simp
  then obtain t where "drop 10 ts = [t]"
    by (cases "drop 10 ts") auto
  then have ts: "ts = take 10 ts @ [t]"
    using append_take_drop_id [of 10 ts] by simp
  define ts10 where "ts10 = take 10 ts"
  have on: "turns_on cid st (ts10 @ [t])" using assms(1) ts ts10_def by simp
  have on10: "turns_on cid st ts10" using on by (simp add: turns_on_append)
  have l10: "length ts10 = 10" using assms(3) ts10_def by simp
  have len: "length (stored_messages (snd (run_turns st ts10)) cid) = 20"
    using run_turns_length [OF on10, of 0] assms(2) l10 by simp
  obtain msg reply where
    "stored_messages (snd (run_turns st (ts10 @ [t]))) cid =
       truncateHistory (stored_messages (snd (run_turns st ts10)) cid @ [userMessage msg])
         @ [assistantMessage reply]"
    using run_turns_snoc [OF on] by blast
  then have a: "stored_messages (snd (run_turns st ts)) cid ! 0
                  = stored_messages (snd (run_turns st ts10)) cid ! 1"
    using len ts ts10_def by (simp add: truncateHistory_eq nth_append)
  have "prefix (stored_messages (snd (run_turns st (take 1 ts10))) cid)
          (stored_messages (snd (run_turns st ts10)) cid)"
    using run_turns_untruncated [OF on10 assms(2)] l10 by simp
  moreover have "take 1 ts10 = take 1 ts" by (simp add: ts10_def)
  moreover have "turns_on cid st (take 1 ts)"
    using assms(1) append_take_drop_id [of 1 ts]
      turns_on_append [of cid st "take 1 ts" "drop 1 ts"] by simp
  then have "length (stored_messages (snd (run_turns st (take 1 ts))) cid) = 2"
    using run_turns_length [of cid st "take 1 ts" 0] assms(2) assms(3) by simp
  ultimately have "stored_messages (snd (run_turns st (take 1 ts))) cid ! 1
        = stored_messages (snd (run_turns st ts10)) cid ! 1"
    by (auto simp: prefix_def nth_append)
  with a show ?thesis by simp
qed

text \<open>After \<open>N\<close> sequential successful turns on one session that started with an empty
  transcript, the stored transcript has \<open>min (2 * N) 21\<close> entries; after 11 turns its
  first entry is what was stored second.\<close>

lemma run_turns_stored_length:
  assumes "turns_on cid st ts" and "stored_messages st cid = []"
  shows "length (stored_messages (snd (run_turns st ts)) cid) = min (2 * length ts) 21
    \<and> (length ts = 11 \<longrightarrow>
         length (stored_messages (snd (run_turns st ts)) cid) = 21
         \<and> stored_messages (snd (run_turns st ts)) cid ! 0
             = stored_messages (snd (run_turns st (take 1 ts))) cid ! 1)"
  using run_turns_length [OF assms(1), of 0] run_turns_eleventh [OF assms] assms(2)
  by simp

text \<open>
  Claim C1, at an input where the handler departs from it. The handler means to keep the
  last 20 messages, but it truncates before it appends the reply. Eleven sequential
  successful turns on a new session, whether the caller names it (\<open>s1\<close>) or the server
  generates its identifier, leave 21 stored entries and not \<open>min (2 * 11) 20 = 20\<close>; the
  eleventh response reports the count 21; and the first stored entry is the reply of the
  first turn, which was stored second, not the user message of the second turn, which was
  stored third: one entry has been dropped, not two.
\<close>

theorem eleven_turns_keep_21:
  "turns_on ''s1'' Map.empty (scenario 11)
   \<and> length (stored_messages (snd (run_turns Map.empty (scenario 11))) ''s1'') = 21
   \<and> length (stored_messages (snd (run_turns Map.empty (scenario 11))) ''s1'') \<noteq> min (2 * 11) 20
   \<and> last (fst (run_turns Map.empty (scenario 11)))
       = TurnOk ''s1'' ''re:xxxxxxxxxxx'' (Text ''meta-llama/Llama-3.1-8B-Instruct'') 21 None
   \<and> stored_messages (snd (run_turns Map.empty (scenario 2))) ''s1'' ! 2 = userMessage ''xx''
   \<and> stored_messages (snd (run_turns Map.empty (scenario 11))) ''s1'' ! 0
       = assistantMessage ''re:x''
   \<and> stored_messages (snd (run_turns Map.empty (scenario 11))) ''s1'' ! 0
       \<noteq> stored_messages (snd (run_turns Map.empty (scenario 2))) ''s1'' ! 2
   \<and> list_all turnOk (fst (run_turns Map.empty (scenario_generated 11)))
   \<and> length (stored_messages (snd (run_turns Map.empty (scenario_generated 11)))
        ''generated-id'') = 21"
  by code_simp

section \<open>Order of the steps within a turn\<close>

lemma last_truncateHistory_snoc: "last (truncateHistory (ms @ [m])) = m"
  by (simp add: truncateHistory_eq)

lemma scenario_first_resolved:
  "getConversation (randomUUID (scenario_env gw)) (createdNow (scenario_env gw)) Map.empty
     (req_conversationId (scenario_body k))
   = ((''s1'', new_session ''t0''), Map.empty(''s1'' \<mapsto> new_session ''t0''))"
  by (simp add: getConversation_def scenario_env_def scenario_body_def new_session_def Let_def)

text \<open>
  Claim C4. In every turn that passes validation the handler calls the gateway once, and
  the message list it sends is the system message carrying the session's current system
  prompt (the override of this turn when one is given, the stored prompt otherwise)
  followed by the whole transcript as it is before truncation, the user message of this
  turn included. The prompt sent is the one the session holds after the turn.
\<close>

theorem outbound_message_list:
  assumes "req_message body = Some msg" and "msg \<noteq> []"
    and "getConversation (randomUUID env) (createdNow env) st (req_conversationId body)
           = ((cid, convo), st1)"
  shows "\<exists>request c'.
      snd (snd (postConversation env st body)) = [request]
    \<and> fst (snd (postConversation env st body)) cid = Some c'
    \<and> cc_messages request
        = \<lparr> role = System, content = systemPrompt c' \<rparr>
            # (messages convo @ [\<lparr> role = User, content = msg \<rparr>])
    \<and> systemPrompt c'
        = (case req_systemPrompt body of
             None \<Rightarrow> systemPrompt convo
           | Some p \<Rightarrow> if p = [] then systemPrompt convo else p)"
  unfolding postConversation_turn [OF assms]
  by (cases "chatCompletion env (turnRequest body convo msg)")
     (simp_all add: turnRequest_def userMessage_def withOverrides_systemPrompt)

theorem outbound_message_list_witness:
  "req_message (scenario_body 0) = Some ''x'' \<and> ''x'' \<noteq> []
   \<and> getConversation (randomUUID (scenario_env echo)) (createdNow (scenario_env echo)) Map.empty
        (req_conversationId (scenario_body 0))
      = ((''s1'', new_session ''t0''), Map.empty(''s1'' \<mapsto> new_session ''t0''))
   \<and> (\<exists>request c'.
        snd (snd (postConversation (scenario_env echo) Map.empty (scenario_body 0))) = [request]
      \<and> fst (snd (postConversation (scenario_env echo) Map.empty (scenario_body 0))) ''s1'' = Some c'
      \<and> cc_messages request
          = \<lparr> role = System, content = systemPrompt c' \<rparr>
              # (messages (new_session ''t0'') @ [\<lparr> role = User, content = ''x'' \<rparr>])
      \<and> systemPrompt c'
          = (case req_systemPrompt (scenario_body 0) of
               None \<Rightarrow> systemPrompt (new_session ''t0'')
             | Some p \<Rightarrow> if p = [] then systemPrompt (new_session ''t0'') else p))"
proof -
  have h1: "req_message (scenario_body 0) = Some ''x''" by (simp add: scenario_body_def)
  have h2: "''x'' \<noteq> []" by simp
  note h3 = scenario_first_resolved [of echo 0]
  show ?thesis
    using h1 h2 h3 outbound_message_list [OF h1 h2 h3] by blast
qed

text \<open>A successful turn: the gateway receives the whole transcript of the turn,
  untruncated, and what persists is the transcript truncated to 20 entries followed by
  the reply.\<close>

lemma successful_turn_stored:
  assumes "req_message body = Some msg" and "msg \<noteq> []"
    and "getConversation (randomUUID env) (createdNow env) st (req_conversationId body)
           = ((cid, convo), st1)"
    and "chatCompletion env (turnRequest body convo msg) = Completion c usage"
  shows "\<exists>resp st' request.
      postConversation env st body = (resp, st', [request])
    \<and> turnOk resp
    \<and> request = turnRequest body convo msg
    \<and> cc_messages request
        = \<lparr> role = System, content = systemPrompt (withOverrides body convo) \<rparr>
            # (messages convo @ [userMessage msg])
    \<and> stored_messages st' cid
        = truncateHistory (messages convo @ [userMessage msg])
            @ [assistantMessage (case c of Some r \<Rightarrow> r | None \<Rightarrow> [])]"
  unfolding postConversation_turn [OF assms(1-3)] assms(4)
  by (simp add: turnRequest_def stored_messages_def)

text \<open>
  Claim C2, at an input where the handler departs from it. In the eleventh successful
  turn of the concrete conversation the transcript holds 20 entries before the turn. The
  handler truncates after it has assembled the outbound list, which therefore carries
  the system prompt and all 21 entries, but before it appends the reply, not after: what
  it stores is 21 entries, and not the 20 entries that appending the reply and truncating
  afterwards gives.
\<close>

theorem eleventh_turn_persists_21:
  "length (stored_messages store_after_ten ''s1'') = 20
   \<and> fst (postConversation (scenario_env echo) store_after_ten (scenario_body 10))
       = TurnOk ''s1'' ''re:xxxxxxxxxxx'' (Text ''meta-llama/Llama-3.1-8B-Instruct'') 21 None
   \<and> map (\<lambda>request. length (cc_messages request))
        (snd (snd (postConversation (scenario_env echo) store_after_ten (scenario_body 10))))
       = [22]
   \<and> length (stored_messages
        (fst (snd (postConversation (scenario_env echo) store_after_ten (scenario_body 10))))
        ''s1'') = 21
   \<and> length (spec_turn_success (stored_messages store_after_ten ''s1'')
        ''xxxxxxxxxxx'' ''re:xxxxxxxxxxx'') = 20
   \<and> stored_messages
        (fst (snd (postConversation (scenario_env echo) store_after_ten (scenario_body 10)))) ''s1''
     \<noteq> spec_turn_success (stored_messages store_after_ten ''s1'')
          ''xxxxxxxxxxx'' ''re:xxxxxxxxxxx''"
  by code_simp

section \<open>A turn whose gateway call fails\<close>

text \<open>
  Claim C3, as the handler has it. When the gateway call of a turn fails, nothing that
  the handler does after the call is committed: no assistant message is appended and
  \<open>updatedAt\<close> is not set; the user message of the turn stays in the transcript, as its
  last entry; the caller gets the failure response, and the gateway has been called once.
  What the handler does before the call is committed: the overrides, and the truncation
  of the transcript to its last 20 entries.
\<close>

theorem failed_turn_keeps_user_message:
  assumes "req_message body = Some msg" and "msg \<noteq> []"
    and "getConversation (randomUUID env) (createdNow env) st (req_conversationId body)
           = ((cid, convo), st1)"
    and "chatCompletion env (turnRequest body convo msg) = GatewayError e"
  shows "\<exists>st' c'.
      postConversation env st body
        = (ServerError ''Failed to generate response'' e, st', [turnRequest body convo msg])
    \<and> st' cid = Some c'
    \<and> messages c' = truncateHistory (messages convo @ [userMessage msg])
    \<and> last (messages c') = userMessage msg
    \<and> suffix (messages c') (messages convo @ [userMessage msg])
    \<and> updatedAt c' = updatedAt convo"
  unfolding postConversation_turn [OF assms(1-3)] assms(4)
  by (simp add: last_truncateHistory_snoc withOverrides_updatedAt truncateHistory_eq
        suffix_drop del: suffix_snoc)

theorem failed_turn_keeps_user_message_witness:
  "req_message (scenario_body 0) = Some ''x'' \<and> ''x'' \<noteq> []
   \<and> getConversation (randomUUID (scenario_env failing)) (createdNow (scenario_env failing))
        Map.empty (req_conversationId (scenario_body 0))
      = ((''s1'', new_session ''t0''), Map.empty(''s1'' \<mapsto> new_session ''t0''))
   \<and> chatCompletion (scenario_env failing)
        (turnRequest (scenario_body 0) (new_session ''t0'') ''x'')
      = GatewayError ''timeout''
   \<and> (\<exists>st' c'.
        postConversation (scenario_env failing) Map.empty (scenario_body 0)
          = (ServerError ''Failed to generate response'' ''timeout'', st',
             [turnRequest (scenario_body 0) (new_session ''t0'') ''x''])
      \<and> st' ''s1'' = Some c'
      \<and> messages c' = truncateHistory (messages (new_session ''t0'') @ [userMessage ''x''])
      \<and> last (messages c') = userMessage ''x''
      \<and> suffix (messages c') (messages (new_session ''t0'') @ [userMessage ''x''])
      \<and> updatedAt c' = updatedAt (new_session ''t0''))"
proof -
  have h1: "req_message (scenario_body 0) = Some ''x''" by (simp add: scenario_body_def)
  have h2: "''x'' \<noteq> []" by simp
  note h3 = scenario_first_resolved [of failing 0]
  have h4: "chatCompletion (scenario_env failing)
              (turnRequest (scenario_body 0) (new_session ''t0'') ''x'')
            = GatewayError ''timeout''"
    by (simp add: scenario_env_def failing_def)
  show ?thesis
    using h1 h2 h3 h4 failed_turn_keeps_user_message [OF h1 h2 h3 h4] by blast
qed

text \<open>A failing eleventh turn of the concrete conversation: the transcript of 20 entries
  does not become those entries followed by the user message, which is what the
  specification words; the oldest entry is gone.\<close>

theorem failed_turn_truncation_counterexample:
  "fst (postConversation (scenario_env failing) store_after_ten (scenario_body 10))
     = ServerError ''Failed to generate response'' ''timeout''
   \<and> length (stored_messages store_after_ten ''s1'') = 20
   \<and> stored_messages
        (fst (snd (postConversation (scenario_env failing) store_after_ten (scenario_body 10))))
        ''s1''
     \<noteq> spec_turn_failure (stored_messages store_after_ten ''s1'') ''xxxxxxxxxxx''"
  by code_simp

section \<open>Empty overrides\<close>

text \<open>
  Claim C10. In a turn that passes validation, a \<open>systemPrompt\<close> override that is the
  empty string leaves the session's system prompt as it was, and a \<open>model\<close> override that
  is the empty string leaves the session's model as it was. A turn never makes a
  non-empty system prompt empty.
\<close>

theorem empty_override_ignored:
  assumes "req_message body = Some msg" and "msg \<noteq> []"
    and "getConversation (randomUUID env) (createdNow env) st (req_conversationId body)
           = ((cid, convo), st1)"
  shows "\<exists>c'. fst (snd (postConversation env st body)) cid = Some c'
    \<and> (req_systemPrompt body = Some [] \<longrightarrow> systemPrompt c' = systemPrompt convo)
    \<and> (req_model body = Some [] \<longrightarrow> model c' = model convo)
    \<and> (systemPrompt convo \<noteq> [] \<longrightarrow> systemPrompt c' \<noteq> [])"
  unfolding postConversation_turn [OF assms]
  by (cases "chatCompletion env (turnRequest body convo msg)")
     (auto simp: withOverrides_systemPrompt withOverrides_model split: option.splits)

theorem empty_override_ignored_witness:
  "req_message (scenario_body 0\<lparr> req_systemPrompt := Some [], req_model := Some [] \<rparr>) = Some ''x''
   \<and> ''x'' \<noteq> []
   \<and> getConversation (randomUUID (scenario_env echo)) (createdNow (scenario_env echo)) Map.empty
        (req_conversationId (scenario_body 0\<lparr> req_systemPrompt := Some [], req_model := Some [] \<rparr>))
      = ((''s1'', new_session ''t0''), Map.empty(''s1'' \<mapsto> new_session ''t0''))
   \<and> req_systemPrompt (scenario_body 0\<lparr> req_systemPrompt := Some [], req_model := Some [] \<rparr>)
      = Some []
   \<and> req_model (scenario_body 0\<lparr> req_systemPrompt := Some [], req_model := Some [] \<rparr>) = Some []
   \<and> systemPrompt (new_session ''t0'') \<noteq> []
   \<and> (\<exists>c'. fst (snd (postConversation (scenario_env echo) Map.empty
                 (scenario_body 0\<lparr> req_systemPrompt := Some [], req_model := Some [] \<rparr>))) ''s1''
              = Some c'
         \<and> systemPrompt c' = ''You are a helpful, friendly AI assistant.''
         \<and> model c' = Text ''meta-llama/Llama-3.1-8B-Instruct'')"
proof -
  let ?body = "scenario_body 0\<lparr> req_systemPrompt := Some [], req_model := Some [] \<rparr>"
  have h1: "req_message ?body = Some ''x''" by (simp add: scenario_body_def)
  have h2: "''x'' \<noteq> []" by simp
  have h3: "getConversation (randomUUID (scenario_env echo)) (createdNow (scenario_env echo))
              Map.empty (req_conversationId ?body)
            = ((''s1'', new_session ''t0''), Map.empty(''s1'' \<mapsto> new_session ''t0''))"
    using scenario_first_resolved [of echo 0] by (simp add: scenario_body_def)
  have h4: "req_systemPrompt ?body = Some []" "req_model ?body = Some []" by simp_all
  have h5: "systemPrompt (new_session ''t0'') = ''You are a helpful, friendly AI assistant.''"
    "model (new_session ''t0'') = Text ''meta-llama/Llama-3.1-8B-Instruct''"
    by (simp_all add: new_session_def MODELS_get_def MODELS_def DEFAULT_MODEL_def)
  have h6: "systemPrompt (new_session ''t0'') \<noteq> []" by (simp add: h5)
  from empty_override_ignored [OF h1 h2 h3] h4 h5
  have "\<exists>c'. fst (snd (postConversation (scenario_env echo) Map.empty ?body)) ''s1'' = Some c'
         \<and> systemPrompt c' = ''You are a helpful, friendly AI assistant.''
         \<and> model c' = Text ''meta-llama/Llama-3.1-8B-Instruct''"
    by auto
  then show ?thesis using h1 h2 h3 h4 h6 by blast
qed

section \<open>The model registry\<close>

lemma MODELS_get_alias: "(k, v) \<in> set MODELS \<Longrightarrow> MODELS_get k = Text v \<and> v \<noteq> []"
  by (auto simp: MODELS_get_def MODELS_def)

lemma MODELS_get_default: "MODELS_get DEFAULT_MODEL = Text ''meta-llama/Llama-3.1-8B-Instruct''"
  by (simp add: MODELS_get_def MODELS_def DEFAULT_MODEL_def)

text \<open>Absent or empty input resolves to the full id of the default alias, which is also
  what the default alias itself resolves to.\<close>

lemma resolveModel_absent:
  "resolveModel None = Text ''meta-llama/Llama-3.1-8B-Instruct''
   \<and> resolveModel (Some []) = Text ''meta-llama/Llama-3.1-8B-Instruct''
   \<and> resolveModel None = resolveModel (Some DEFAULT_MODEL)"
  by (simp add: resolveModel_def MODELS_get_default)
     (simp add: DEFAULT_MODEL_def MODELS_get_def MODELS_def)

text \<open>Every alias resolves to the full id the registry binds to it.\<close>

lemma resolveModel_alias: "(k, v) \<in> set MODELS \<Longrightarrow> resolveModel (Some k) = Text v"
  using MODELS_get_alias [of k v] by (auto simp: resolveModel_def MODELS_def)

text \<open>A non-empty text that is neither an alias nor the name of a member of
  \<open>Object.prototype\<close> is returned as it is.\<close>

lemma resolveModel_other:
  assumes "m \<noteq> []" and "m \<notin> set (map fst MODELS)" and "m \<notin> set Object_prototype_keys"
  shows "resolveModel (Some m) = Text m"
proof -
  have "map_of MODELS m = None" using assms(2) by (simp add: map_of_eq_None_iff)
  then show ?thesis using assms(1,3) by (simp add: resolveModel_def MODELS_get_def)
qed

text \<open>The name of a member of \<open>Object.prototype\<close> resolves to that member, not to a
  text.\<close>

lemma resolveModel_inherited:
  assumes "k \<in> set Object_prototype_keys"
  shows "resolveModel (Some k) = ProtoMember k"
proof -
  have "map_of MODELS k = None" "k \<noteq> []"
    using assms by (auto simp: Object_prototype_keys_def MODELS_def)
  then show ?thesis using assms by (simp add: resolveModel_def MODELS_get_def)
qed

text \<open>What the registry returns is never an alias.\<close>

lemma resolveModel_not_alias: "\<not> is_alias (resolveModel m)"
proof -
  have full: "\<not> is_alias (MODELS_get k)" for k
  proof (cases "map_of MODELS k")
    case None
    then show ?thesis by (simp add: MODELS_get_def is_alias_def)
  next
    case (Some v)
    then have "(k, v) \<in> set MODELS" by (rule map_of_SomeD)
    then have "v \<notin> set (map fst MODELS)" by (auto simp: MODELS_def)
    then show ?thesis using Some by (simp add: MODELS_get_def is_alias_def)
  qed
  have other: "\<not> is_alias (Text s)" if "\<not> truthy (MODELS_get s)" for s
  proof (cases "map_of MODELS s")
    case None
    then show ?thesis by (simp add: is_alias_def map_of_eq_None_iff)
  next
    case (Some v)
    then have "(s, v) \<in> set MODELS" by (rule map_of_SomeD)
    then show ?thesis using that MODELS_get_alias [of s v] by simp
  qed
  show ?thesis
    using full other by (simp add: resolveModel_def split: option.split)
qed

text \<open>
  Claim C5, at an input where the registry departs from it. The text \<open>constructor\<close> is
  not an alias of the registry, yet \<open>resolveModel\<close> does not return it unchanged: the
  lookup \<open>MODELS[model]\<close> finds the member that the registry object inherits, and that
  member is returned. The same holds for \<open>toString\<close> and \<open>__proto__\<close>.
\<close>

theorem resolveModel_inherited_member:
  "\<not> is_alias (Text ''constructor'')
   \<and> resolveModel (Some ''constructor'') = ProtoMember ''constructor''
   \<and> resolveModel (Some ''constructor'') \<noteq> Text ''constructor''
   \<and> resolveModel (Some ''toString'') = ProtoMember ''toString''
   \<and> resolveModel (Some ''__proto__'') = ProtoMember ''__proto__''"
  by (simp add: resolveModel_def MODELS_get_def MODELS_def Object_prototype_keys_def
        is_alias_def)

section \<open>Invariants of the session store\<close>

lemma getConversation_cases:
  assumes "getConversation uuid now st cido = ((cid, convo), st1)"
  shows "(st cid = Some convo \<and> st1 = st)
       \<or> (convo = new_session now \<and> st1 = st(cid \<mapsto> convo)
           \<and> (cid = uuid \<or> cido = Some cid \<and> cid \<noteq> []))"
  using assms
  by (auto simp: getConversation_def new_session_def Let_def split: option.splits if_splits)

text \<open>What a request to \<open>POST /conversation\<close> does to the store: nothing, or it writes one
  session, under the given identifier or under the generated one, whose model is the
  model the session had, the default of a new session, or a result of \<open>resolveModel\<close>.\<close>

lemma postConversation_store:
  "fst (snd (postConversation env st body)) = st
   \<or> (\<exists>cid c'. (cid = randomUUID env \<or> req_conversationId body = Some cid \<and> cid \<noteq> [])
        \<and> fst (snd (postConversation env st body)) = st(cid \<mapsto> c')
        \<and> ((\<exists>c. st cid = Some c \<and> model c' = model c)
            \<or> model c' = MODELS_get DEFAULT_MODEL
            \<or> (\<exists>m. model c' = resolveModel (Some m))))"
proof (cases "truthy (field (req_message body))")
  case False
  then show ?thesis by (simp add: postConversation_invalid)
next
  case True
  then obtain msg where m: "req_message body = Some msg" "msg \<noteq> []"
    by (cases "req_message body") auto
  obtain cid convo st1 where g:
    "getConversation (randomUUID env) (createdNow env) st (req_conversationId body)
       = ((cid, convo), st1)"
    by (metis prod.exhaust)
  have id: "cid = randomUUID env \<or> req_conversationId body = Some cid \<and> cid \<noteq> []"
    using g by (auto simp: getConversation_def Let_def split: option.splits if_splits)
  have st1: "\<And>c. st1(cid \<mapsto> c) = st(cid \<mapsto> c)"
    using getConversation_cases [OF g] by auto
  have mc: "(\<exists>c. st cid = Some c \<and> model convo = model c)
            \<or> model convo = MODELS_get DEFAULT_MODEL"
    using getConversation_cases [OF g] by (auto simp: new_session_def)
  have mo: "model (withOverrides body convo) = model convo
            \<or> (\<exists>m. model (withOverrides body convo) = resolveModel (Some m))"
    by (auto simp: withOverrides_model split: option.splits)
  define final where "final = fst (snd (postConversation env st body))"
  have "\<exists>c'. final = st(cid \<mapsto> c') \<and> model c' = model (withOverrides body convo)"
    unfolding final_def postConversation_turn [OF m g]
    by (cases "chatCompletion env (turnRequest body convo msg)") (auto simp: st1)
  then show ?thesis
    using id mc mo unfolding final_def by metis
qed

text \<open>No operation stores an alias as the model of a session.\<close>

lemma postConversation_never_alias:
  assumes "\<forall>i c. st i = Some c \<longrightarrow> \<not> is_alias (model c)"
  shows "\<forall>i c. fst (snd (postConversation env st body)) i = Some c \<longrightarrow> \<not> is_alias (model c)"
proof -
  have d: "\<not> is_alias (MODELS_get DEFAULT_MODEL)"
    using resolveModel_not_alias [of None] by (simp add: resolveModel_def)
  from postConversation_store [of env st body] show ?thesis
  proof
    assume "fst (snd (postConversation env st body)) = st"
    then show ?thesis using assms by simp
  next
    assume "\<exists>cid c'. (cid = randomUUID env \<or> req_conversationId body = Some cid \<and> cid \<noteq> [])
        \<and> fst (snd (postConversation env st body)) = st(cid \<mapsto> c')
        \<and> ((\<exists>c. st cid = Some c \<and> model c' = model c)
            \<or> model c' = MODELS_get DEFAULT_MODEL
            \<or> (\<exists>m. model c' = resolveModel (Some m)))"
    then obtain cid c' where
      f: "fst (snd (postConversation env st body)) = st(cid \<mapsto> c')"
      and mdl: "(\<exists>c. st cid = Some c \<and> model c' = model c)
            \<or> model c' = MODELS_get DEFAULT_MODEL
            \<or> (\<exists>m. model c' = resolveModel (Some m))"
      by blast
    have "\<not> is_alias (model c')"
      using mdl assms d resolveModel_not_alias by auto
    then show ?thesis using assms by (simp add: f)
  qed
qed

lemma deleteConversationRoute_never_alias:
  assumes "\<forall>i c. st i = Some c \<longrightarrow> \<not> is_alias (model c)"
  shows "\<forall>i c. snd (deleteConversationRoute st cid) i = Some c \<longrightarrow> \<not> is_alias (model c)"
  using assms by (simp add: deleteConversationRoute_def)

text \<open>The empty text is never the identifier of a session, as long as the generated
  identifiers are not empty.\<close>

lemma postConversation_ids:
  assumes "st [] = None" and "randomUUID env \<noteq> []"
  shows "fst (snd (postConversation env st body)) [] = None"
  using postConversation_store [of env st body] assms by auto

lemma deleteConversationRoute_ids:
  "st [] = None \<Longrightarrow> snd (deleteConversationRoute st cid) [] = None"
  by (simp add: deleteConversationRoute_def)

text \<open>
  Claim C6, at an input where the store departs from it. A turn on a new session with
  the model override \<open>constructor\<close>, which is not an alias, stores a model that is not a
  text at all, so not a fully-qualified identifier: the member that the registry object
  inherits. The gateway call fails here, and the model stays stored.
\<close>

theorem stored_model_inherited_member:
  "getConversationRoute
     (fst (snd (postConversation (scenario_env failing) Map.empty
                  (scenario_body 0\<lparr> req_model := Some ''constructor'' \<rparr>)))) ''s1''
     = HistoryOk ''s1'' ''You are a helpful, friendly AI assistant.'' (ProtoMember ''constructor'')
         1 [userMessage ''x''] ''t0'' None
   \<and> \<not> fully_qualified (ProtoMember ''constructor'')
   \<and> \<not> is_alias (Text ''constructor'')"
  by code_simp

section \<open>Lookup and deletion\<close>

text \<open>
  Claim C8. For the identifier of a live session, \<open>getConversation\<close> returns the stored
  session and leaves the store as it is, so a second call with the same identifier
  returns the same messages, system prompt and model, whatever identifier generator and
  clock the two calls see.
\<close>

theorem getConversation_existing_idempotent:
  assumes "st [] = None" and "st cid = Some c"
  shows "getConversation u1 n1 st (Some cid) = ((cid, c), st)
    \<and> getConversation u2 n2 (snd (getConversation u1 n1 st (Some cid))) (Some cid) = ((cid, c), st)"
proof -
  have "cid \<noteq> []" using assms by auto
  then show ?thesis using assms(2) by (simp add: getConversation_Some)
qed

theorem getConversation_existing_idempotent_witness:
  "(Map.empty(''s1'' \<mapsto> new_session ''t0'')) [] = None
   \<and> (Map.empty(''s1'' \<mapsto> new_session ''t0'')) ''s1'' = Some (new_session ''t0'')
   \<and> getConversation ''u1'' ''t1'' (Map.empty(''s1'' \<mapsto> new_session ''t0'')) (Some ''s1'')
       = ((''s1'', new_session ''t0''), Map.empty(''s1'' \<mapsto> new_session ''t0''))
   \<and> getConversation ''u2'' ''t2''
        (snd (getConversation ''u1'' ''t1'' (Map.empty(''s1'' \<mapsto> new_session ''t0''))
                (Some ''s1''))) (Some ''s1'')
       = ((''s1'', new_session ''t0''), Map.empty(''s1'' \<mapsto> new_session ''t0''))"
proof -
  have h1: "(Map.empty(''s1'' \<mapsto> new_session ''t0'')) [] = None" by simp
  have h2: "(Map.empty(''s1'' \<mapsto> new_session ''t0'')) ''s1'' = Some (new_session ''t0'')"
    by simp
  show ?thesis
    using h1 h2 getConversation_existing_idempotent [OF h1 h2, of "''u1''" "''t1''" "''u2''" "''t2''"]
    by blast
qed

text \<open>
  Claim C9. After \<open>DELETE /conversation/:id\<close>, whatever it answered,
  \<open>GET /conversation/:id\<close> on the same identifier answers not found. Deleting an
  identifier with no live session answers not found and leaves the store as it is;
  deleting a live session succeeds and removes it.
\<close>

theorem delete_then_get_not_found:
  "getConversationRoute (snd (deleteConversationRoute st cid)) cid
     = NotFound ''Conversation not found''
   \<and> (st cid = None \<longrightarrow>
        deleteConversationRoute st cid = (NotFound ''Conversation not found'', st))
   \<and> (st cid \<noteq> None \<longrightarrow>
        deleteConversationRoute st cid = (DeletedOk ''Conversation deleted'', st(cid := None)))"
  by (simp add: deleteConversationRoute_def getConversationRoute_def)

theorem delete_then_get_not_found_witness:
  "(Map.empty :: store) ''s1'' = None
   \<and> deleteConversationRoute Map.empty ''s1'' = (NotFound ''Conversation not found'', Map.empty)
   \<and> (Map.empty(''s1'' \<mapsto> new_session ''t0'')) ''s1'' \<noteq> None
   \<and> fst (deleteConversationRoute (Map.empty(''s1'' \<mapsto> new_session ''t0'')) ''s1'')
       = DeletedOk ''Conversation deleted''
   \<and> getConversationRoute
        (snd (deleteConversationRoute (Map.empty(''s1'' \<mapsto> new_session ''t0'')) ''s1'')) ''s1''
       = NotFound ''Conversation not found''"
proof -
  have h1: "(Map.empty :: store) ''s1'' = None" by simp
  have h2: "(Map.empty(''s1'' \<mapsto> new_session ''t0'')) ''s1'' \<noteq> None" by simp
  show ?thesis
    using h1 h2 delete_then_get_not_found [of Map.empty "''s1''"]
      delete_then_get_not_found [of "Map.empty(''s1'' \<mapsto> new_session ''t0'')" "''s1''"]
    by (simp add: getConversationRoute_def)
qed

end
